theory Spec2Isabelle
  imports Complex_Main
begin

section \<open>Python values\<close>

subsection \<open>Strings\<close>

text \<open>
  A Python \<open>str\<close> is a sequence of code points, and \<open>len\<close> counts code points. A code
  point is a natural number; those of Python lie below \<open>0x110000\<close>. The literals of the
  script that are not ASCII are written as their code points.
\<close>

type_synonym pychar = nat
type_synonym pystr = "pychar list"

definition ascii :: "string \<Rightarrow> pystr" where
  "ascii s = map of_char s"

definition ELLIPSIS :: pychar where
  "ELLIPSIS = 8230"

definition LF :: pychar where
  "LF = 10"

text \<open>\<open>str.isspace\<close> for one character: the code points CPython treats as whitespace.\<close>

definition py_isspace :: "pychar \<Rightarrow> bool" where
  "py_isspace c \<longleftrightarrow>
     (9 \<le> c \<and> c \<le> 13) \<or> (28 \<le> c \<and> c \<le> 32) \<or> c = 133 \<or> c = 160 \<or> c = 5760
     \<or> (8192 \<le> c \<and> c \<le> 8202) \<or> c = 8232 \<or> c = 8233 \<or> c = 8239 \<or> c = 8287
     \<or> c = 12288"

text \<open>\<open>s.strip()\<close>, \<open>s.replace(c, new)\<close> for a one-character \<open>c\<close>, \<open>sep.join(xs)\<close>.\<close>

definition py_strip :: "pystr \<Rightarrow> pystr" where
  "py_strip s = rev (dropWhile py_isspace (rev (dropWhile py_isspace s)))"

definition py_replace :: "pychar \<Rightarrow> pystr \<Rightarrow> pystr \<Rightarrow> pystr" where
  "py_replace c new s = concat (map (\<lambda>x. if x = c then new else [x]) s)"

fun py_join :: "pystr \<Rightarrow> pystr list \<Rightarrow> pystr" where
  "py_join sep [] = []"
| "py_join sep [x] = x"
| "py_join sep (x # y # ys) = x @ sep @ py_join sep (y # ys)"

text \<open>\<open>xs[:k]\<close>: a negative \<open>k\<close> counts from the end.\<close>

definition py_slice_to :: "'a list \<Rightarrow> int \<Rightarrow> 'a list" where
  "py_slice_to xs k = (if 0 \<le> k then take (nat k) xs else take (nat (int (length xs) + k)) xs)"

text \<open>\<open>str(n)\<close> for an integer, as an f-string renders it.\<close>

fun decimal :: "nat \<Rightarrow> pystr" where
  "decimal n = (if n < 10 then [48 + n] else decimal (n div 10) @ [48 + n mod 10])"

declare decimal.simps [simp del]

definition str_int :: "int \<Rightarrow> pystr" where
  "str_int i = (if i < 0 then 45 # decimal (nat (- i)) else decimal (nat i))"

text \<open>
  \<open>len(s.encode("utf-8"))\<close>. A surrogate code point (\<open>0xD800\<close> to \<open>0xDFFF\<close>) has no UTF-8
  encoding: \<open>encode\<close> raises \<open>UnicodeEncodeError\<close>, here \<open>None\<close>. \<open>json.loads\<close> yields
  such code points from a lone \<open>\ud800\<close> escape.
\<close>

definition utf8_width :: "pychar \<Rightarrow> nat option" where
  "utf8_width c =
     (if c < 128 then Some 1
      else if c < 2048 then Some 2
      else if 55296 \<le> c \<and> c \<le> 57343 then None
      else if c < 65536 then Some 3
      else Some 4)"

fun utf8_length :: "pystr \<Rightarrow> nat option" where
  "utf8_length [] = Some 0"
| "utf8_length (c # cs) =
     (case utf8_width c of
        None \<Rightarrow> None
      | Some w \<Rightarrow> (case utf8_length cs of None \<Rightarrow> None | Some n \<Rightarrow> Some (w + n)))"

subsection \<open>JSON values as \<open>json.loads\<close> returns them\<close>

text \<open>
  A float is a finite rational or one of the three special values that \<open>json.loads\<close>
  accepts. A dict is an association list read by its first matching key; the keys of a
  Python dict are unique.
\<close>

datatype pyfloat = Finite rat | PosInf | NegInf | NaN

datatype json =
    JNull
  | JBool bool
  | JInt int
  | JFloat pyfloat
  | JStr pystr
  | JList "json list"
  | JDict "(pystr \<times> json) list"

type_synonym dict = "(pystr \<times> json) list"

datatype py_error =
    UnicodeEncodeError
  | RequestException
  | HTTPError int
  | JSONDecodeError
  | AttributeError
  | TypeError
  | ValueError
  | OverflowError
  | RuntimeError json

text \<open>\<open>d.get(k)\<close> and \<open>d.get(k, default)\<close>.\<close>

definition dict_get :: "dict \<Rightarrow> pystr \<Rightarrow> json" where
  "dict_get d k = (case map_of d k of None \<Rightarrow> JNull | Some v \<Rightarrow> v)"

definition dict_get_default :: "dict \<Rightarrow> pystr \<Rightarrow> json \<Rightarrow> json" where
  "dict_get_default d k dflt = (case map_of d k of None \<Rightarrow> dflt | Some v \<Rightarrow> v)"

text \<open>Truth value testing, and \<open>x or y\<close>.\<close>

fun truthy :: "json \<Rightarrow> bool" where
  "truthy JNull = False"
| "truthy (JBool b) = b"
| "truthy (JInt i) = (i \<noteq> 0)"
| "truthy (JFloat f) = (f \<noteq> Finite 0)"
| "truthy (JStr s) = (s \<noteq> [])"
| "truthy (JList xs) = (xs \<noteq> [])"
| "truthy (JDict d) = (d \<noteq> [])"

definition py_or :: "json \<Rightarrow> json \<Rightarrow> json" where
  "py_or x y = (if truthy x then x else y)"

subsection \<open>The library\<close>

text \<open>
  What the script takes from Python's library and what is not defined by the script
  itself is a parameter of the model:
  \<^item> \<open>repr_of v\<close> is \<open>str(v)\<close> for a float, a list or a dict \<open>v\<close>;
  \<^item> \<open>iso_bj s\<close> is
    \<open>datetime.fromisoformat(s).astimezone(DEFAULT_TZ).strftime("%m-%d %H:%M")\<close>, and
    \<open>None\<close> when one of the three calls raises;
  \<^item> \<open>int_of_str s\<close> is \<open>int(s)\<close> for a string \<open>s\<close>, and \<open>None\<close> when it raises
    \<open>ValueError\<close>.
\<close>

record pylib =
  repr_of :: "json \<Rightarrow> pystr"
  iso_bj :: "pystr \<Rightarrow> pystr option"
  int_of_str :: "pystr \<Rightarrow> int option"

text \<open>\<open>str(v)\<close>.\<close>

definition py_str :: "pylib \<Rightarrow> json \<Rightarrow> pystr" where
  "py_str L v =
     (case v of
        JStr s \<Rightarrow> s
      | JNull \<Rightarrow> ascii ''None''
      | JBool b \<Rightarrow> (if b then ascii ''True'' else ascii ''False'')
      | JInt i \<Rightarrow> str_int i
      | _ \<Rightarrow> repr_of L v)"

text \<open>\<open>int(v)\<close>: a float is truncated towards zero.\<close>

definition py_int :: "pylib \<Rightarrow> json \<Rightarrow> py_error + int" where
  "py_int L v =
     (case v of
        JInt i \<Rightarrow> Inr i
      | JBool b \<Rightarrow> Inr (if b then 1 else 0)
      | JFloat (Finite q) \<Rightarrow> Inr (if 0 \<le> q then \<lfloor>q\<rfloor> else \<lceil>q\<rceil>)
      | JFloat NaN \<Rightarrow> Inl ValueError
      | JFloat _ \<Rightarrow> Inl OverflowError
      | JStr s \<Rightarrow> (case int_of_str L s of None \<Rightarrow> Inl ValueError | Some i \<Rightarrow> Inr i)
      | _ \<Rightarrow> Inl TypeError)"

section \<open>The digest script\<close>

subsection \<open>\<open>parse_iso_to_bj\<close>\<close>

definition parse_iso_to_bj :: "pylib \<Rightarrow> pystr option \<Rightarrow> pystr" where
  "parse_iso_to_bj L iso_str =
     (case iso_str of
        None \<Rightarrow> ascii ''--:--''
      | Some s \<Rightarrow>
          if s = [] then ascii ''--:--''
          else (case iso_bj L (py_replace 90 (ascii ''+00:00'') s) of
                  Some r \<Rightarrow> r
                | None \<Rightarrow> s))"

subsection \<open>\<open>shorten\<close>\<close>

text \<open>\<open>text or ""\<close> is \<open>text\<close> for a string.\<close>

definition shorten :: "pystr \<Rightarrow> int \<Rightarrow> pystr" where
  "shorten text limit =
     (let s = py_strip (py_replace LF (ascii '' '') text)
      in if int (length s) \<le> limit then s
         else if limit \<le> 1 then [ELLIPSIS]
         else py_slice_to s (limit - 1) @ [ELLIPSIS])"

subsection \<open>\<open>pick_ai_items\<close>\<close>

text \<open>\<open>[it for it in raw if isinstance(it, dict)]\<close>.\<close>

definition dict_entries :: "json list \<Rightarrow> dict list" where
  "dict_entries xs = List.map_filter (\<lambda>it. case it of JDict d \<Rightarrow> Some d | _ \<Rightarrow> None) xs"

definition pick_ai_items :: "dict \<Rightarrow> dict list" where
  "pick_ai_items snapshot =
     (let raw = py_or (py_or (dict_get snapshot (ascii ''items_ai''))
                             (dict_get snapshot (ascii ''items'')))
                      (JList [])
      in case raw of
           JList xs \<Rightarrow> dict_entries xs
         | _ \<Rightarrow> [])"

subsection \<open>\<open>_header_lines\<close>\<close>

text \<open>
  The literals are, in order, \<open>## AI\<close> and the title of the daily report, \<open>>\<close> and
  the words for "generated at" with their closing bracket, \<open>> AI\<close> and the words for
  "related items", \<open>>\<close> and the words for "view details".
\<close>

definition header_lines :: "pylib \<Rightarrow> dict \<Rightarrow> pystr \<Rightarrow> int \<Rightarrow> pystr option \<Rightarrow> pystr list" where
  "header_lines L snapshot keyword total' site_url =
     (let generated_at =
            parse_iso_to_bj L
              (Some (py_str L (py_or (dict_get snapshot (ascii ''generated_at'')) (JStr []))))
      in (if keyword \<noteq> [] then [keyword] else [])
         @ [ascii ''## AI '' @ [26032, 38395, 26085, 25253, 65288, 36817] @ ascii ''24''
              @ [23567, 26102, 65289],
            ascii ''> '' @ [29983, 25104, 26102, 38388, 65306] @ generated_at
              @ [65288, 21271, 20140, 26102, 38388, 65289],
            ascii ''> AI '' @ [30456, 20851, 26465, 25968, 65306] @ str_int total']
         @ (case site_url of
              None \<Rightarrow> []
            | Some u \<Rightarrow>
                if u \<noteq> []
                then [ascii ''> '' @ [26597, 30475, 35814, 24773, 65306] @ ascii ''[''
                        @ u @ ascii '']('' @ u @ ascii '')'']
                else [])
         @ [[]])"

subsection \<open>\<open>_item_lines\<close>\<close>

text \<open>The body of the \<open>for\<close> loop: the two lines of the item numbered \<open>idx\<close>.\<close>

definition item_block :: "pylib \<Rightarrow> int \<Rightarrow> nat \<Rightarrow> dict \<Rightarrow> pystr list" where
  "item_block L title_limit idx item =
     (let title = shorten
            (py_str L (py_or (py_or (dict_get item (ascii ''title_bilingual''))
                                    (dict_get item (ascii ''title'')))
                             (JStr (ascii ''Untitled''))))
            title_limit;
          url = py_strip (py_str L (py_or (dict_get item (ascii ''url'')) (JStr [])));
          site0 = py_strip (py_str L (py_or (dict_get item (ascii ''site_name'')) (JStr [])));
          site = (if site0 \<noteq> [] then site0 else ascii ''-'');
          source0 = py_strip (py_str L (py_or (dict_get item (ascii ''source'')) (JStr [])));
          source = (if source0 \<noteq> [] then source0 else ascii ''-'');
          published =
            parse_iso_to_bj L
              (Some (py_str L (py_or (dict_get item (ascii ''published_at'')) (JStr []))))
      in [if url \<noteq> []
          then str_int (int idx) @ ascii ''. ['' @ title @ ascii '']('' @ url @ ascii '')''
          else str_int (int idx) @ ascii ''. '' @ title,
          ascii ''> '' @ site @ ascii ''/'' @ source @ [32, 183, 32] @ published])"

definition item_lines :: "pylib \<Rightarrow> dict list \<Rightarrow> int \<Rightarrow> int \<Rightarrow> pystr list" where
  "item_lines L items top_n title_limit =
     concat (map (\<lambda>(idx, item). item_block L title_limit idx item)
                 (List.enumerate 1 (py_slice_to items top_n)))"

subsection \<open>\<open>build_digest_markdown\<close>\<close>

text \<open>The shown-count that the size-fitting loop starts from.\<close>

definition initial_shown :: "int \<Rightarrow> int \<Rightarrow> int" where
  "initial_shown top_n total' =
     (let shown = min (max top_n 0) total'
      in if shown > 0 then shown else min total' 3)"

text \<open>
  The candidate text of one pass of the loop. The remark line is \<open>>\<close>, the word for
  "remaining", the number, and the words asking to see the page or the repository data.
\<close>

definition digest_content :: "pylib \<Rightarrow> pystr list \<Rightarrow> dict list \<Rightarrow> int \<Rightarrow> int \<Rightarrow> int \<Rightarrow> pystr" where
  "digest_content L header items total' shown title_limit =
     (let body = item_lines L items shown title_limit;
          body = (if total' > shown
                  then body @ [[], ascii ''> '' @ [20854, 20313, 32] @ str_int (total' - shown)
                                     @ [32, 26465, 35831, 26597, 30475, 39029, 38754, 25110,
                                        20179, 24211, 25968, 25454]]
                  else body)
      in py_strip (py_join [LF] (header @ body)))"

text \<open>
  The \<open>while True\<close> loop. \<open>None\<close> stands for a loop that does not come back; \<open>Inl\<close> is
  the exception of \<open>encode\<close>.
\<close>

partial_function (option) fit_loop ::
  "pylib \<Rightarrow> pystr list \<Rightarrow> dict list \<Rightarrow> int \<Rightarrow> int \<Rightarrow> int \<Rightarrow> int \<Rightarrow> int
     \<Rightarrow> (py_error + pystr \<times> int) option" where
  "fit_loop L header items total' min_items byte_limit shown title_limit =
     (let content = digest_content L header items total' shown title_limit
      in case utf8_length content of
           None \<Rightarrow> Some (Inl UnicodeEncodeError)
         | Some n \<Rightarrow>
             if int n \<le> byte_limit then Some (Inr (content, shown))
             else if shown > min_items
               then fit_loop L header items total' min_items byte_limit (shown - 1) title_limit
             else if title_limit > 20
               then fit_loop L header items total' min_items byte_limit shown (title_limit - 4)
             else Some (Inr (content, shown)))"

declare fit_loop.simps [code]

definition build_digest_markdown ::
  "pylib \<Rightarrow> dict \<Rightarrow> pystr \<Rightarrow> int \<Rightarrow> int \<Rightarrow> pystr option \<Rightarrow> (py_error + pystr \<times> int) option" where
  "build_digest_markdown L snapshot keyword top_n byte_limit site_url =
     (let items = pick_ai_items snapshot;
          total' = int (length items);
          shown = initial_shown top_n total';
          title_limit = 46;
          header = header_lines L snapshot keyword total' site_url;
          min_items = (if total' \<noteq> 0 then 1 else 0)
      in fit_loop L header items total' min_items byte_limit shown title_limit)"

subsection \<open>\<open>send_wecom_markdown\<close>\<close>

text \<open>
  The network is a parameter: \<open>post\<close> answers a request with a response or with the
  exception \<open>requests.post\<close> raises. \<open>json_body\<close> is what \<open>resp.json()\<close> returns, \<open>None\<close>
  when the body is not JSON. The function returns the requests it sent, in order, and
  its outcome.
\<close>

record request =
  req_url :: pystr
  req_json :: json
  req_timeout :: int

record response =
  status_code :: int
  json_body :: "json option"

definition raise_for_status :: "response \<Rightarrow> py_error + unit" where
  "raise_for_status resp =
     (if 400 \<le> status_code resp \<and> status_code resp < 600
      then Inl (HTTPError (status_code resp)) else Inr ())"

definition send_wecom_markdown ::
  "pylib \<Rightarrow> (request \<Rightarrow> py_error + response) \<Rightarrow> pystr \<Rightarrow> pystr \<Rightarrow> int
     \<Rightarrow> request list \<times> (py_error + json)" where
  "send_wecom_markdown L post webhook_url content timeout =
     (let payload = JDict [(ascii ''msgtype'', JStr (ascii ''markdown'')),
                           (ascii ''markdown'', JDict [(ascii ''content'', JStr content)])];
          req = \<lparr>req_url = webhook_url, req_json = payload, req_timeout = timeout\<rparr>
      in ([req],
          case post req of
            Inl e \<Rightarrow> Inl e
          | Inr resp \<Rightarrow>
              (case raise_for_status resp of
                 Inl e \<Rightarrow> Inl e
               | Inr _ \<Rightarrow>
                   (case json_body resp of
                      None \<Rightarrow> Inl JSONDecodeError
                    | Some data \<Rightarrow>
                        (case data of
                           JDict d \<Rightarrow>
                             (case py_int L (dict_get_default d (ascii ''errcode'') (JInt (- 1))) of
                                Inl e \<Rightarrow> Inl e
                              | Inr code \<Rightarrow>
                                  if code \<noteq> 0 then Inl (RuntimeError data) else Inr data)
                         | _ \<Rightarrow> Inl AttributeError)))))"

subsection \<open>The library on timestamps with seconds and an offset\<close>

text \<open>
  A model of \<open>datetime\<close> to run the script on. What the library does is fixed here only
  where it does not depend on its version or on data outside the repository; the rest
  is a parameter:
  \<^item> \<open>iso_form\<close> reads the strings of the form \<open>YYYY-MM-DDTHH:MM:SS+HH:MM\<close> (or
    \<open>-HH:MM\<close>) with a valid date and time, which is what a valid timestamp ending in
    \<open>Z\<close> becomes after the script's \<open>replace\<close>, and answers \<open>None\<close> for every other
    string: that the string is not of this form, not that the library raises;
  \<^item> \<open>other s\<close> is what the whole of
    \<open>datetime.fromisoformat(s).astimezone(DEFAULT_TZ).strftime("%m-%d %H:%M")\<close> gives
    for a string \<open>s\<close> that is not of this form, \<open>None\<close> when it raises;
  \<^item> \<open>tz utc\<close> is the offset from UTC, in seconds, that the zone table of
    \<open>DEFAULT_TZ = ZoneInfo("Asia/Shanghai")\<close> has at the UTC date and time \<open>utc\<close>. The
    table is not part of the repository.
\<close>

record datetime =
  year :: nat
  month :: nat
  day :: nat
  hour :: nat
  minute :: nat
  second :: nat
  utcoffset :: int

definition is_leap :: "nat \<Rightarrow> bool" where
  "is_leap y \<longleftrightarrow> y mod 4 = 0 \<and> (y mod 100 \<noteq> 0 \<or> y mod 400 = 0)"

definition days_in_month :: "nat \<Rightarrow> nat \<Rightarrow> nat" where
  "days_in_month y m =
     (if m = 2 then (if is_leap y then 29 else 28)
      else if m = 4 \<or> m = 6 \<or> m = 9 \<or> m = 11 then 30
      else 31)"

definition number :: "pystr \<Rightarrow> nat option" where
  "number cs =
     (if cs \<noteq> [] \<and> list_all (\<lambda>c. 48 \<le> c \<and> c \<le> 57) cs
      then Some (foldl (\<lambda>a c. 10 * a + (c - 48)) 0 cs)
      else None)"

text \<open>The offset of the record is in seconds.\<close>

definition iso_form :: "pystr \<Rightarrow> datetime option" where
  "iso_form s =
     (if length s \<noteq> 25 then None
      else if \<not> (s ! 4 = 45 \<and> s ! 7 = 45 \<and> s ! 10 = 84 \<and> s ! 13 = 58 \<and> s ! 16 = 58
                 \<and> (s ! 19 = 43 \<or> s ! 19 = 45) \<and> s ! 22 = 58) then None
      else
        (case (number (take 4 s), number (take 2 (drop 5 s)), number (take 2 (drop 8 s))) of
           (Some y, Some mo, Some d) \<Rightarrow>
             (case (number (take 2 (drop 11 s)), number (take 2 (drop 14 s)),
                    number (take 2 (drop 17 s))) of
                (Some h, Some mi, Some sec) \<Rightarrow>
                  (case (number (take 2 (drop 20 s)), number (take 2 (drop 23 s))) of
                     (Some oh, Some om) \<Rightarrow>
                       if 1 \<le> y \<and> 1 \<le> mo \<and> mo \<le> 12 \<and> 1 \<le> d \<and> d \<le> days_in_month y mo
                          \<and> h < 24 \<and> mi < 60 \<and> sec < 60 \<and> oh < 24 \<and> om < 60
                       then Some \<lparr>year = y, month = mo, day = d, hour = h, minute = mi,
                                  second = sec,
                                  utcoffset = (if s ! 19 = 45 then - 1 else 1)
                                                * (3600 * int oh + 60 * int om)\<rparr>
                       else None
                   | _ \<Rightarrow> None)
              | _ \<Rightarrow> None)
         | _ \<Rightarrow> None))"

definition next_day :: "nat \<times> nat \<times> nat \<Rightarrow> nat \<times> nat \<times> nat" where
  "next_day = (\<lambda>(y, m, d).
     if d < days_in_month y m then (y, m, d + 1)
     else if m < 12 then (y, m + 1, 1)
     else (y + 1, 1, 1))"

definition prev_day :: "nat \<times> nat \<times> nat \<Rightarrow> nat \<times> nat \<times> nat" where
  "prev_day = (\<lambda>(y, m, d).
     if 1 < d then (y, m, d - 1)
     else if 1 < m then (y, m - 1, days_in_month y (m - 1))
     else (y - 1, 12, 31))"

text \<open>
  \<open>dt + timedelta(seconds=k)\<close>: the date and time \<open>k\<close> seconds later, with the offset of
  \<open>dt\<close>. A date outside the years 1 to 9999 raises \<open>OverflowError\<close>, here \<open>None\<close>.
\<close>

definition add_seconds :: "datetime \<Rightarrow> int \<Rightarrow> datetime option" where
  "add_seconds dt k =
     (let t = 3600 * int (hour dt) + 60 * int (minute dt) + int (second dt) + k;
          shift = t div 86400;
          t' = nat (t mod 86400);
          (y, m, d) = (if shift < 0 then (prev_day ^^ nat (- shift)) (year dt, month dt, day dt)
                       else (next_day ^^ nat shift) (year dt, month dt, day dt))
      in if y < 1 \<or> 9999 < y then None
         else Some \<lparr>year = y, month = m, day = d, hour = t' div 3600,
                    minute = t' div 60 mod 60, second = t' mod 60, utcoffset = utcoffset dt\<rparr>)"

text \<open>
  \<open>dt.astimezone(DEFAULT_TZ)\<close> for an aware \<open>dt\<close>, as the library computes it: first the
  UTC date and time \<open>dt - dt.utcoffset()\<close>, then, with the offset \<open>tz\<close> has there, the
  local one. Either step raises when it leaves the range of dates.
\<close>

definition astimezone :: "(datetime \<Rightarrow> int) \<Rightarrow> datetime \<Rightarrow> datetime option" where
  "astimezone tz dt =
     (case add_seconds dt (- utcoffset dt) of
        None \<Rightarrow> None
      | Some u \<Rightarrow>
          (let utc = u\<lparr>utcoffset := 0\<rparr>; off = tz utc
           in map_option (\<lambda>l. l\<lparr>utcoffset := off\<rparr>) (add_seconds utc off)))"

text \<open>\<open>dt.strftime("%m-%d %H:%M")\<close>.\<close>

definition two_digits :: "nat \<Rightarrow> pystr" where
  "two_digits n = [48 + n div 10, 48 + n mod 10]"

definition strftime_md_hm :: "datetime \<Rightarrow> pystr" where
  "strftime_md_hm dt =
     two_digits (month dt) @ ascii ''-'' @ two_digits (day dt) @ ascii '' ''
       @ two_digits (hour dt) @ ascii '':'' @ two_digits (minute dt)"

text \<open>The three calls of the \<open>try\<close> block, for a zone table and the rest of the library.\<close>

definition iso_to_bj :: "(datetime \<Rightarrow> int) \<Rightarrow> (pystr \<Rightarrow> pystr option) \<Rightarrow> pystr \<Rightarrow> pystr option" where
  "iso_to_bj tz other s =
     (case iso_form s of
        None \<Rightarrow> other s
      | Some dt \<Rightarrow> map_option strftime_md_hm (astimezone tz dt))"

text \<open>
  Modelled from the spec: the zone table of \<open>DEFAULT_TZ\<close> is missing from the
  repository, and the spec gives the zone as the fixed zone UTC+8. This is the table of
  the spec, 28800 seconds at every instant.
\<close>

definition utc8 :: "datetime \<Rightarrow> int" where
  "utc8 utc = 28800"

text \<open>
  An instance of the library to run the model on: the zone table of the spec. \<open>repr_of\<close>
  and \<open>int_of_str\<close> are not reached from values that are strings or integers, and no
  timestamp of another form is run; they answer the empty string and \<open>None\<close>.
\<close>

definition profile_lib :: pylib where
  "profile_lib = \<lparr>repr_of = (\<lambda>v. []), iso_bj = iso_to_bj utc8 (\<lambda>s. None),
                   int_of_str = (\<lambda>s. None)\<rparr>"

subsection \<open>Notions of the claims\<close>

text \<open>The first line of a text: what comes before its first newline.\<close>

definition first_line :: "pystr \<Rightarrow> pystr" where
  "first_line s = takeWhile (\<lambda>c. c \<noteq> LF) s"



subsection \<open>Sample inputs\<close>

text \<open>
  A snapshot of two items with the titles \<open>a\<close> and \<open>b\<close>, and the two texts that the
  builder makes of it under the keyword \<open>K\<close>: with both items, and with the first item
  and the remark that one more is left out.
\<close>

definition two_items :: dict where
  "two_items = [(ascii ''items'', JList [JDict [(ascii ''title'', JStr (ascii ''a''))],
                                         JDict [(ascii ''title'', JStr (ascii ''b''))]])]"

definition two_items_full :: pystr where
  "two_items_full =
     ascii ''K\<newline>## AI '' @ [26032, 38395, 26085, 25253, 65288, 36817] @ ascii ''24''
     @ [23567, 26102, 65289] @ ascii ''\<newline>> '' @ [29983, 25104, 26102, 38388, 65306]
     @ ascii ''--:--'' @ [65288, 21271, 20140, 26102, 38388, 65289]
     @ ascii ''\<newline>> AI '' @ [30456, 20851, 26465, 25968, 65306]
     @ ascii ''2\<newline>\<newline>1. a\<newline>> -/- '' @ [183]
     @ ascii '' --:--\<newline>2. b\<newline>> -/- '' @ [183] @ ascii '' --:--''"

definition two_items_one :: pystr where
  "two_items_one =
     ascii ''K\<newline>## AI '' @ [26032, 38395, 26085, 25253, 65288, 36817] @ ascii ''24''
     @ [23567, 26102, 65289] @ ascii ''\<newline>> '' @ [29983, 25104, 26102, 38388, 65306]
     @ ascii ''--:--'' @ [65288, 21271, 20140, 26102, 38388, 65289]
     @ ascii ''\<newline>> AI '' @ [30456, 20851, 26465, 25968, 65306]
     @ ascii ''2\<newline>\<newline>1. a\<newline>> -/- '' @ [183]
     @ ascii '' --:--\<newline>\<newline>> '' @ [20854, 20313] @ ascii '' 1 ''
     @ [26465, 35831, 26597, 30475, 39029, 38754, 25110, 20179, 24211, 25968, 25454]"

text \<open>
  A snapshot of four items, and the text the builder makes of its first three; the
  header alone, under the keyword \<open>K\<close> and under a keyword that begins with a space; a
  snapshot whose only title is a lone surrogate.
\<close>

definition four_items :: dict where
  "four_items = [(ascii ''items_ai'', JList [JDict [(ascii ''title'', JStr (ascii ''a''))],
                                            JDict [(ascii ''title'', JStr (ascii ''b''))],
                                            JDict [(ascii ''title'', JStr (ascii ''c''))],
                                            JDict [(ascii ''title'', JStr (ascii ''d''))]])]"

definition four_items_three :: pystr where
  "four_items_three =
     ascii ''K\<newline>## AI '' @ [26032, 38395, 26085, 25253, 65288, 36817] @ ascii ''24''
     @ [23567, 26102, 65289] @ ascii ''\<newline>> '' @ [29983, 25104, 26102, 38388, 65306]
     @ ascii ''--:--'' @ [65288, 21271, 20140, 26102, 38388, 65289]
     @ ascii ''\<newline>> AI '' @ [30456, 20851, 26465, 25968, 65306]
     @ ascii ''4\<newline>\<newline>1. a\<newline>> -/- '' @ [183]
     @ ascii '' --:--\<newline>2. b\<newline>> -/- '' @ [183]
     @ ascii '' --:--\<newline>3. c\<newline>> -/- '' @ [183]
     @ ascii '' --:--\<newline>\<newline>> '' @ [20854, 20313] @ ascii '' 1 ''
     @ [26465, 35831, 26597, 30475, 39029, 38754, 25110, 20179, 24211, 25968, 25454]"

definition header_only :: pystr where
  "header_only =
     ascii ''K\<newline>## AI '' @ [26032, 38395, 26085, 25253, 65288, 36817] @ ascii ''24''
     @ [23567, 26102, 65289] @ ascii ''\<newline>> '' @ [29983, 25104, 26102, 38388, 65306]
     @ ascii ''--:--'' @ [65288, 21271, 20140, 26102, 38388, 65289]
     @ ascii ''\<newline>> AI '' @ [30456, 20851, 26465, 25968, 65306] @ ascii ''0''"

definition header_only_AI :: pystr where
  "header_only_AI =
     ascii ''AI\<newline>## AI '' @ [26032, 38395, 26085, 25253, 65288, 36817]
     @ ascii ''24'' @ [23567, 26102, 65289] @ ascii ''\<newline>> ''
     @ [29983, 25104, 26102, 38388, 65306] @ ascii ''--:--''
     @ [65288, 21271, 20140, 26102, 38388, 65289] @ ascii ''\<newline>> AI ''
     @ [30456, 20851, 26465, 25968, 65306] @ ascii ''0''"

definition lone_surrogate :: dict where
  "lone_surrogate = [(ascii ''items_ai'', JList [JDict [(ascii ''title'', JStr [55296])]])]"

text \<open>
  Seven webhook servers: one that accepts the message, one that rejects it with an error
  code, one that is down, one that answers with a page that is not JSON, one that
  answers with a JSON list, one whose error code is null, and one whose error code is
  the fraction one half.
\<close>

definition server_ok :: "request \<Rightarrow> py_error + response" where
  "server_ok req = Inr \<lparr>status_code = 200,
     json_body = Some (JDict [(ascii ''errcode'', JInt 0), (ascii ''errmsg'', JStr (ascii ''ok''))])\<rparr>"

definition server_rejects :: "request \<Rightarrow> py_error + response" where
  "server_rejects req = Inr \<lparr>status_code = 200,
     json_body = Some (JDict [(ascii ''errcode'', JInt 93000),
                              (ascii ''errmsg'', JStr (ascii ''invalid webhook url''))])\<rparr>"

definition server_down :: "request \<Rightarrow> py_error + response" where
  "server_down req = Inr \<lparr>status_code = 503, json_body = None\<rparr>"

definition server_page :: "request \<Rightarrow> py_error + response" where
  "server_page req = Inr \<lparr>status_code = 200, json_body = None\<rparr>"

definition server_list :: "request \<Rightarrow> py_error + response" where
  "server_list req = Inr \<lparr>status_code = 200, json_body = Some (JList [])\<rparr>"

definition server_null :: "request \<Rightarrow> py_error + response" where
  "server_null req = Inr \<lparr>status_code = 200,
     json_body = Some (JDict [(ascii ''errcode'', JNull)])\<rparr>"

definition server_half :: "request \<Rightarrow> py_error + response" where
  "server_half req = Inr \<lparr>status_code = 200,
     json_body = Some (JDict [(ascii ''errcode'', JFloat (Finite (1 / 2)))])\<rparr>"

section \<open>Properties\<close>

subsection \<open>Strings\<close>

lemma ascii_space: "ascii '' '' = [32]"
  by (simp add: ascii_def)

lemma set_py_strip: "set (py_strip s) \<subseteq> set s"
proof -
  have "set (dropWhile py_isspace (rev (dropWhile py_isspace s))) \<subseteq> set (rev (dropWhile py_isspace s))"
    by (rule set_dropWhileD [THEN subsetI])
  also have "\<dots> \<subseteq> set s"
    using set_dropWhileD [of _ py_isspace s] by auto
  finally show ?thesis by (simp add: py_strip_def)
qed

lemma last_dropWhile_eq: "dropWhile P xs \<noteq> [] \<Longrightarrow> last (dropWhile P xs) = last xs"
proof -
  assume a: "dropWhile P xs \<noteq> []"
  have "last xs = last (takeWhile P xs @ dropWhile P xs)" by simp
  also have "\<dots> = last (dropWhile P xs)" using a by (rule last_appendR)
  finally show ?thesis by simp
qed

lemma py_strip_ends:
  assumes "py_strip s \<noteq> []"
  shows "\<not> py_isspace (hd (py_strip s))" and "\<not> py_isspace (last (py_strip s))"
proof -
  let ?t = "dropWhile py_isspace s"
  let ?u = "dropWhile py_isspace (rev ?t)"
  from assms have u: "?u \<noteq> []" by (simp add: py_strip_def)
  then have t: "?t \<noteq> []" by (cases "dropWhile py_isspace s") simp_all
  have "hd (py_strip s) = last ?u" by (simp add: py_strip_def hd_rev)
  also have "\<dots> = last (rev ?t)" using u by (rule last_dropWhile_eq)
  also have "\<dots> = hd ?t" by (simp add: last_rev)
  finally show "\<not> py_isspace (hd (py_strip s))" using t hd_dropWhile [of py_isspace s] by simp
  have "last (py_strip s) = hd ?u" by (simp add: py_strip_def last_rev)
  then show "\<not> py_isspace (last (py_strip s))" using u hd_dropWhile [of py_isspace "rev ?t"] by simp
qed

lemma LF_notin_replace: "LF \<notin> set (py_replace LF (ascii '' '') text)"
  by (induction "text") (auto simp: py_replace_def ascii_space LF_def)

subsection \<open>\<open>shorten\<close>\<close>

lemma length_py_slice_to: "0 \<le> k \<Longrightarrow> int (length (py_slice_to xs k)) \<le> k"
  by (simp add: py_slice_to_def)

text \<open>
  C10. For every string and every limit of at least 1, \<open>shorten\<close> returns at most
  \<open>limit\<close> characters. For a limit of 0 or less the bound fails on every input whose
  cleaned text is not empty: the result is the one-character ellipsis.
\<close>

theorem shorten_length_le_limit:
  "(1 \<le> limit \<longrightarrow> int (length (shorten text limit)) \<le> limit) \<and>
   (limit \<le> 0 \<and> py_strip (py_replace LF (ascii '' '') text) \<noteq> [] \<longrightarrow>
      shorten text limit = [ELLIPSIS] \<and> limit < int (length (shorten text limit)))"
proof (intro conjI impI)
  assume "1 \<le> limit"
  then have "int (length (py_slice_to s (limit - 1))) \<le> limit - 1" for s :: pystr
    by (intro length_py_slice_to) simp
  from this [of "py_strip (py_replace LF (ascii '' '') text)"] \<open>1 \<le> limit\<close>
  show "int (length (shorten text limit)) \<le> limit"
    by (simp add: shorten_def Let_def)
next
  assume a: "limit \<le> 0 \<and> py_strip (py_replace LF (ascii '' '') text) \<noteq> []"
  then have "\<not> int (length (py_strip (py_replace LF (ascii '' '') text))) \<le> limit"
    by (cases "py_strip (py_replace LF (ascii '' '') text)") auto
  with a show "shorten text limit = [ELLIPSIS]"
    by (simp add: shorten_def Let_def)
  with a show "limit < int (length (shorten text limit))"
    by simp
qed

theorem shorten_length_le_limit_witness:
  "(1::int) \<le> 3 \<and> int (length (shorten (ascii ''abcdef'') 3)) \<le> 3 \<and>
   (0::int) \<le> 0 \<and> py_strip (py_replace LF (ascii '' '') (ascii ''a'')) \<noteq> [] \<and>
   shorten (ascii ''a'') 0 = [ELLIPSIS] \<and> 0 < int (length (shorten (ascii ''a'') 0))"
proof -
  have ne: "py_strip (py_replace LF (ascii '' '') (ascii ''a'')) \<noteq> []"
    by (simp add: py_strip_def py_replace_def ascii_def LF_def py_isspace_def)
  from shorten_length_le_limit [of 3 "ascii ''abcdef''"]
    shorten_length_le_limit [of 0 "ascii ''a''"] ne
  show ?thesis by simp
qed

text \<open>
  C5 (amended). \<open>shorten\<close> replaces every newline by a space and strips the surrounding
  whitespace; a cleaned text of at most \<open>limit\<close> characters is returned as it is, for
  every limit; a longer one is cut to \<open>limit - 1\<close> characters (none when \<open>limit \<le> 1\<close>)
  followed by one ellipsis, so that for \<open>limit \<le> 1\<close> a cleaned text longer than
  \<open>limit\<close> gives exactly the ellipsis.
\<close>

theorem shorten_cases:
  "(let s = py_strip (py_replace LF (ascii '' '') text)
    in LF \<notin> set s \<and>
       (s \<noteq> [] \<longrightarrow> \<not> py_isspace (hd s) \<and> \<not> py_isspace (last s)) \<and>
       (int (length s) \<le> limit \<longrightarrow> shorten text limit = s) \<and>
       (limit < int (length s) \<longrightarrow> shorten text limit = take (nat (limit - 1)) s @ [ELLIPSIS]) \<and>
       (limit < int (length s) \<and> limit \<le> 1 \<longrightarrow> shorten text limit = [ELLIPSIS]))"
proof -
  let ?s = "py_strip (py_replace LF (ascii '' '') text)"
  have 1: "LF \<notin> set ?s"
    using set_py_strip [of "py_replace LF (ascii '' '') text"] LF_notin_replace [of "text"] by blast
  have 2: "?s \<noteq> [] \<longrightarrow> \<not> py_isspace (hd ?s) \<and> \<not> py_isspace (last ?s)"
    using py_strip_ends by blast
  have 3: "int (length ?s) \<le> limit \<longrightarrow> shorten text limit = ?s"
    by (simp add: shorten_def Let_def)
  have 4: "limit < int (length ?s) \<longrightarrow> shorten text limit = take (nat (limit - 1)) ?s @ [ELLIPSIS]"
    by (simp add: shorten_def Let_def py_slice_to_def)
  have 5: "limit < int (length ?s) \<and> limit \<le> 1 \<longrightarrow> shorten text limit = [ELLIPSIS]"
    by (simp add: shorten_def Let_def)
  from 1 2 3 4 5 show ?thesis unfolding Let_def by blast
qed

theorem shorten_cases_witness:
  "shorten (ascii ''  one\<newline>two  '') 5 = ascii ''one '' @ [ELLIPSIS] \<and>
   shorten (ascii ''  one\<newline>two  '') 7 = ascii ''one two'' \<and>
   shorten (ascii ''ab'') 1 = [ELLIPSIS]"
  using shorten_cases [of "ascii ''  one\<newline>two  ''" 5]
    shorten_cases [of "ascii ''  one\<newline>two  ''" 7] shorten_cases [of "ascii ''ab''" 1]
  by (simp add: Let_def ascii_def py_strip_def py_replace_def LF_def py_isspace_def)

text \<open>
  The claim as written fails for \<open>limit \<le> 1\<close>: a one-character text with limit 1 is
  returned unchanged, not as the ellipsis.
\<close>

theorem shorten_limit_one_counterexample:
  "(1::int) \<le> 1 \<and> shorten (ascii ''a'') 1 = ascii ''a'' \<and> shorten (ascii ''a'') 1 \<noteq> [ELLIPSIS]"
  by (simp add: shorten_def Let_def ascii_def py_strip_def py_replace_def LF_def py_isspace_def ELLIPSIS_def)

subsection \<open>\<open>pick_ai_items\<close>\<close>

lemma dict_entries_filter: "map JDict (dict_entries xs) = filter (\<lambda>it. \<exists>d. it = JDict d) xs"
  by (induction xs) (auto simp: dict_entries_def List.map_filter_simps split: json.splits)

text \<open>
  C3 (amended). When \<open>items_ai\<close> is a sequence that is not empty, \<open>pick_ai_items\<close>
  returns exactly its dict entries, in order, and does not look at \<open>items\<close>. When
  \<open>items_ai\<close> is true as a Python value and not a sequence, the result is empty and
  \<open>items\<close> is not looked at either. When \<open>items_ai\<close> is absent or false as a Python
  value (null, the empty sequence, the empty string, the empty object, zero, false), the
  dict entries of \<open>items\<close> are returned if \<open>items\<close> is a sequence, and nothing
  otherwise.
\<close>

theorem pick_ai_items_cases:
  "(let a = dict_get snapshot (ascii ''items_ai''); b = dict_get snapshot (ascii ''items'')
    in (\<forall>xs. a = JList xs \<and> xs \<noteq> [] \<longrightarrow>
          pick_ai_items snapshot = dict_entries xs \<and>
          map JDict (pick_ai_items snapshot) = filter (\<lambda>it. \<exists>d. it = JDict d) xs) \<and>
       (truthy a \<and> (\<forall>xs. a \<noteq> JList xs) \<longrightarrow> pick_ai_items snapshot = []) \<and>
       (\<not> truthy a \<longrightarrow>
          pick_ai_items snapshot = (case b of JList ys \<Rightarrow> dict_entries ys | _ \<Rightarrow> [])))"
proof -
  let ?a = "dict_get snapshot (ascii ''items_ai'')"
  let ?b = "dict_get snapshot (ascii ''items'')"
  have 1: "pick_ai_items snapshot = dict_entries xs \<and>
           map JDict (pick_ai_items snapshot) = filter (\<lambda>it. \<exists>d. it = JDict d) xs"
    if "?a = JList xs \<and> xs \<noteq> []" for xs
  proof -
    from that have "pick_ai_items snapshot = dict_entries xs"
      by (simp add: pick_ai_items_def py_or_def)
    then show ?thesis by (simp add: dict_entries_filter)
  qed
  have 2: "pick_ai_items snapshot = []" if "truthy ?a \<and> (\<forall>xs. ?a \<noteq> JList xs)"
    using that by (cases ?a) (simp_all add: pick_ai_items_def py_or_def)
  have 3: "pick_ai_items snapshot = (case ?b of JList ys \<Rightarrow> dict_entries ys | _ \<Rightarrow> [])"
    if "\<not> truthy ?a"
    using that by (cases ?b) (auto simp: pick_ai_items_def py_or_def dict_entries_def List.map_filter_simps)
  from 1 2 3 show ?thesis unfolding Let_def by blast
qed

theorem pick_ai_items_cases_witness:
  "pick_ai_items [(ascii ''items_ai'', JList [JDict [(ascii ''title'', JStr (ascii ''A''))], JInt 5]),
                  (ascii ''items'', JList [JDict [(ascii ''title'', JStr (ascii ''B''))]])]
     = [[(ascii ''title'', JStr (ascii ''A''))]] \<and>
   pick_ai_items [(ascii ''items_ai'', JStr (ascii ''x'')),
                  (ascii ''items'', JList [JDict [(ascii ''title'', JStr (ascii ''B''))]])] = [] \<and>
   pick_ai_items [(ascii ''items'', JList [JDict [(ascii ''title'', JStr (ascii ''B''))], JNull])]
     = [[(ascii ''title'', JStr (ascii ''B''))]]"
  using
    pick_ai_items_cases [of "[(ascii ''items_ai'', JList [JDict [(ascii ''title'', JStr (ascii ''A''))], JInt 5]),
                  (ascii ''items'', JList [JDict [(ascii ''title'', JStr (ascii ''B''))]])]"]
    pick_ai_items_cases [of "[(ascii ''items_ai'', JStr (ascii ''x'')),
                  (ascii ''items'', JList [JDict [(ascii ''title'', JStr (ascii ''B''))]])]"]
    pick_ai_items_cases [of "[(ascii ''items'', JList [JDict [(ascii ''title'', JStr (ascii ''B''))], JNull])]"]
  by (simp add: Let_def dict_get_def ascii_def dict_entries_def List.map_filter_simps)

text \<open>
  The claim as written fails twice: an empty \<open>items_ai\<close> sequence is present and is a
  sequence, yet \<open>items\<close> is used; a non-empty string \<open>items_ai\<close> is not a sequence, yet
  \<open>items\<close> is not used.
\<close>

theorem pick_ai_items_counterexample:
  "dict_get [(ascii ''items_ai'', JList []),
             (ascii ''items'', JList [JDict [(ascii ''title'', JStr (ascii ''B''))]])]
     (ascii ''items_ai'') = JList [] \<and>
   pick_ai_items [(ascii ''items_ai'', JList []),
                  (ascii ''items'', JList [JDict [(ascii ''title'', JStr (ascii ''B''))]])]
     \<noteq> dict_entries [] \<and>
   dict_get [(ascii ''items_ai'', JStr (ascii ''x'')),
             (ascii ''items'', JList [JDict [(ascii ''title'', JStr (ascii ''B''))]])]
     (ascii ''items_ai'') = JStr (ascii ''x'') \<and>
   pick_ai_items [(ascii ''items_ai'', JStr (ascii ''x'')),
                  (ascii ''items'', JList [JDict [(ascii ''title'', JStr (ascii ''B''))]])]
     \<noteq> dict_entries [JDict [(ascii ''title'', JStr (ascii ''B''))]]"
  by (simp add: pick_ai_items_def py_or_def Let_def dict_get_def ascii_def dict_entries_def List.map_filter_simps)

subsection \<open>The size-fitting loop\<close>

text \<open>One pass of the loop, by the branch it takes.\<close>

lemma fit_loop_raise:
  "utf8_length (digest_content L header items total' shown title_limit) = None \<Longrightarrow>
   fit_loop L header items total' min_items byte_limit shown title_limit
     = Some (Inl UnicodeEncodeError)"
  by (subst fit_loop.simps) (simp add: Let_def)

lemma fit_loop_fits:
  "utf8_length (digest_content L header items total' shown title_limit) = Some n \<Longrightarrow>
   int n \<le> byte_limit \<Longrightarrow>
   fit_loop L header items total' min_items byte_limit shown title_limit
     = Some (Inr (digest_content L header items total' shown title_limit, shown))"
  by (subst fit_loop.simps) (simp add: Let_def)

lemma fit_loop_fewer:
  "utf8_length (digest_content L header items total' shown title_limit) = Some n \<Longrightarrow>
   \<not> int n \<le> byte_limit \<Longrightarrow> min_items < shown \<Longrightarrow>
   fit_loop L header items total' min_items byte_limit shown title_limit
     = fit_loop L header items total' min_items byte_limit (shown - 1) title_limit"
  by (subst fit_loop.simps) (simp add: Let_def)

lemma fit_loop_shorter:
  "utf8_length (digest_content L header items total' shown title_limit) = Some n \<Longrightarrow>
   \<not> int n \<le> byte_limit \<Longrightarrow> \<not> min_items < shown \<Longrightarrow> 20 < title_limit \<Longrightarrow>
   fit_loop L header items total' min_items byte_limit shown title_limit
     = fit_loop L header items total' min_items byte_limit shown (title_limit - 4)"
  by (subst fit_loop.simps) (simp add: Let_def)

lemma fit_loop_give_up:
  "utf8_length (digest_content L header items total' shown title_limit) = Some n \<Longrightarrow>
   \<not> int n \<le> byte_limit \<Longrightarrow> \<not> min_items < shown \<Longrightarrow> \<not> 20 < title_limit \<Longrightarrow>
   fit_loop L header items total' min_items byte_limit shown title_limit
     = Some (Inr (digest_content L header items total' shown title_limit, shown))"
  by (subst fit_loop.simps) (simp add: Let_def)

lemma fit_loop_cases:
  obtains
    (raise) "utf8_length (digest_content L header items total' shown title_limit) = None"
      "fit_loop L header items total' min_items byte_limit shown title_limit
         = Some (Inl UnicodeEncodeError)"
  | (fits) n where "utf8_length (digest_content L header items total' shown title_limit) = Some n"
      "int n \<le> byte_limit"
      "fit_loop L header items total' min_items byte_limit shown title_limit
         = Some (Inr (digest_content L header items total' shown title_limit, shown))"
  | (fewer) "min_items < shown"
      "fit_loop L header items total' min_items byte_limit shown title_limit
         = fit_loop L header items total' min_items byte_limit (shown - 1) title_limit"
  | (shorter) "\<not> min_items < shown" "20 < title_limit"
      "fit_loop L header items total' min_items byte_limit shown title_limit
         = fit_loop L header items total' min_items byte_limit shown (title_limit - 4)"
  | (give_up) n where "utf8_length (digest_content L header items total' shown title_limit) = Some n"
      "\<not> min_items < shown" "\<not> 20 < title_limit"
      "fit_loop L header items total' min_items byte_limit shown title_limit
         = Some (Inr (digest_content L header items total' shown title_limit, shown))"
proof (cases "utf8_length (digest_content L header items total' shown title_limit)")
  case None
  then show ?thesis using fit_loop_raise raise by blast
next
  case (Some n)
  show ?thesis
  proof (cases "int n \<le> byte_limit")
    case True
    with Some show ?thesis using fit_loop_fits fits by blast
  next
    case over: False
    show ?thesis
    proof (cases "min_items < shown")
      case True
      with Some over show ?thesis using fit_loop_fewer fewer by blast
    next
      case floor: False
      show ?thesis
      proof (cases "20 < title_limit")
        case True
        with Some over floor show ?thesis using fit_loop_shorter shorter by blast
      next
        case False
        with Some over floor show ?thesis using fit_loop_give_up give_up by blast
      qed
    qed
  qed
qed

lemma fit_loop_returns:
  "\<exists>r. fit_loop L header items total' min_items byte_limit shown title_limit = Some r"
proof (induction "nat (shown - min_items) + nat title_limit" arbitrary: shown title_limit
         rule: less_induct)
  case less
  show ?case
  proof (cases L header items total' min_items byte_limit shown title_limit rule: fit_loop_cases)
    case raise
    then show ?thesis by simp
  next
    case (fits n)
    then show ?thesis by simp
  next
    case fewer
    have "\<exists>r. fit_loop L header items total' min_items byte_limit (shown - 1) title_limit = Some r"
      by (rule less) (use fewer in simp)
    with fewer show ?thesis by simp
  next
    case shorter
    have "\<exists>r. fit_loop L header items total' min_items byte_limit shown (title_limit - 4) = Some r"
      by (rule less) (use shorter in simp)
    with shorter show ?thesis by simp
  next
    case (give_up n)
    then show ?thesis by simp
  qed
qed

lemma fit_loop_Inl:
  "fit_loop L header items total' min_items byte_limit shown title_limit = Some (Inl e) \<Longrightarrow>
   e = UnicodeEncodeError \<and>
   (\<exists>s t. s \<le> shown \<and> (min_items \<le> shown \<longrightarrow> min_items \<le> s) \<and> t \<le> title_limit \<and>
      utf8_length (digest_content L header items total' s t) = None)"
proof (induction "nat (shown - min_items) + nat title_limit" arbitrary: shown title_limit
         rule: less_induct)
  case less
  show ?case
  proof (cases L header items total' min_items byte_limit shown title_limit rule: fit_loop_cases)
    case raise
    with less.prems have "e = UnicodeEncodeError" by simp
    with raise(1) show ?thesis by (intro conjI exI [of _ shown] exI [of _ title_limit]) simp_all
  next
    case (fits n)
    with less.prems show ?thesis by simp
  next
    case fewer
    have "e = UnicodeEncodeError \<and>
      (\<exists>s t. s \<le> shown - 1 \<and> (min_items \<le> shown - 1 \<longrightarrow> min_items \<le> s) \<and> t \<le> title_limit \<and>
         utf8_length (digest_content L header items total' s t) = None)"
      by (rule less.hyps) (use fewer less.prems in simp_all)
    then obtain s t where *: "e = UnicodeEncodeError" "s \<le> shown - 1"
      "min_items \<le> shown - 1 \<longrightarrow> min_items \<le> s" "t \<le> title_limit"
      "utf8_length (digest_content L header items total' s t) = None" by blast
    from *(2,3) fewer(1) have "s \<le> shown" "min_items \<le> s" by simp_all
    with * show ?thesis by blast
  next
    case shorter
    have "e = UnicodeEncodeError \<and>
      (\<exists>s t. s \<le> shown \<and> (min_items \<le> shown \<longrightarrow> min_items \<le> s) \<and> t \<le> title_limit - 4 \<and>
         utf8_length (digest_content L header items total' s t) = None)"
      by (rule less.hyps) (use shorter less.prems in simp_all)
    then obtain s t where *: "e = UnicodeEncodeError" "s \<le> shown"
      "min_items \<le> shown \<longrightarrow> min_items \<le> s" "t \<le> title_limit - 4"
      "utf8_length (digest_content L header items total' s t) = None" by blast
    from *(4) have "t \<le> title_limit" by simp
    with * show ?thesis by blast
  next
    case (give_up n)
    with less.prems show ?thesis by simp
  qed
qed

lemma fit_loop_Inr:
  "fit_loop L header items total' min_items byte_limit shown title_limit
     = Some (Inr (content, shown')) \<Longrightarrow>
   shown' \<le> shown \<and> (min_items \<le> shown \<longrightarrow> min_items \<le> shown') \<and>
   (\<exists>t n. t \<le> title_limit \<and> content = digest_content L header items total' shown' t \<and>
      utf8_length content = Some n \<and>
      (int n \<le> byte_limit \<or> shown' \<le> min_items \<and> t \<le> 20))"
proof (induction "nat (shown - min_items) + nat title_limit" arbitrary: shown title_limit
         rule: less_induct)
  case less
  let ?c = "digest_content L header items total' shown title_limit"
  show ?case
  proof (cases L header items total' min_items byte_limit shown title_limit rule: fit_loop_cases)
    case raise
    with less.prems show ?thesis by simp
  next
    case (fits n)
    with less.prems have eq: "content = ?c" "shown' = shown" by auto
    have "\<exists>t n. t \<le> title_limit \<and> ?c = digest_content L header items total' shown t \<and>
      utf8_length ?c = Some n \<and> (int n \<le> byte_limit \<or> shown \<le> min_items \<and> t \<le> 20)"
      using fits(1,2) by blast
    then show ?thesis unfolding eq by simp
  next
    case fewer
    have "shown' \<le> shown - 1 \<and> (min_items \<le> shown - 1 \<longrightarrow> min_items \<le> shown') \<and>
      (\<exists>t n. t \<le> title_limit \<and> content = digest_content L header items total' shown' t \<and>
        utf8_length content = Some n \<and>
        (int n \<le> byte_limit \<or> shown' \<le> min_items \<and> t \<le> 20))"
      by (rule less.hyps) (use fewer less.prems in simp_all)
    moreover from fewer have "min_items \<le> shown - 1" by simp
    ultimately show ?thesis by simp
  next
    case shorter
    have "shown' \<le> shown \<and> (min_items \<le> shown \<longrightarrow> min_items \<le> shown') \<and>
      (\<exists>t n. t \<le> title_limit - 4 \<and> content = digest_content L header items total' shown' t \<and>
        utf8_length content = Some n \<and>
        (int n \<le> byte_limit \<or> shown' \<le> min_items \<and> t \<le> 20))"
      by (rule less.hyps) (use shorter less.prems in simp_all)
    then obtain t n where *: "shown' \<le> shown" "min_items \<le> shown \<longrightarrow> min_items \<le> shown'"
      "t \<le> title_limit - 4" "content = digest_content L header items total' shown' t"
      "utf8_length content = Some n" "int n \<le> byte_limit \<or> shown' \<le> min_items \<and> t \<le> 20"
      by blast
    from *(3) have "t \<le> title_limit" by simp
    with * show ?thesis by blast
  next
    case (give_up n)
    with less.prems have eq: "content = ?c" "shown' = shown" by auto
    have "\<exists>t n. t \<le> title_limit \<and> ?c = digest_content L header items total' shown t \<and>
      utf8_length ?c = Some n \<and> (int n \<le> byte_limit \<or> shown \<le> min_items \<and> t \<le> 20)"
      using give_up(1,2,3) by (intro exI [of _ title_limit] exI [of _ n]) simp
    then show ?thesis unfolding eq by simp
  qed
qed

subsection \<open>\<open>build_digest_markdown\<close>\<close>

lemma initial_shown_bounds:
  "0 \<le> total' \<Longrightarrow>
   (if total' \<noteq> 0 then 1 else 0) \<le> initial_shown top_n total' \<and> initial_shown top_n total' \<le> total'"
  by (auto simp: initial_shown_def Let_def)

lemma item_lines_Nil: "item_lines L [] s t = []"
  by (simp add: item_lines_def py_slice_to_def List.enumerate_eq_zip)

lemma digest_content_no_items:
  "digest_content L header [] 0 0 t = py_strip (py_join [LF] header)"
  by (simp add: digest_content_def item_lines_Nil)

lemma build_digest_markdown_fit_loop:
  "build_digest_markdown L snapshot keyword top_n byte_limit site_url =
     fit_loop L (header_lines L snapshot keyword (int (length (pick_ai_items snapshot))) site_url)
       (pick_ai_items snapshot) (int (length (pick_ai_items snapshot)))
       (if pick_ai_items snapshot \<noteq> [] then 1 else 0) byte_limit
       (initial_shown top_n (int (length (pick_ai_items snapshot)))) 46"
  by (simp add: build_digest_markdown_def Let_def)

text \<open>
  C2. The loop comes back from every state, and so does \<open>build_digest_markdown\<close> on every
  input. A pass that neither raises nor returns either takes one from \<open>shown\<close>, while it
  is above its floor, or takes 4 from \<open>title_limit\<close>, while it is above 20; the natural
  number \<open>(shown - min_items) + title_limit\<close> gets smaller in both cases.
\<close>

theorem build_digest_markdown_terminates:
  "(\<exists>r. build_digest_markdown L snapshot keyword top_n byte_limit site_url = Some r) \<and>
   (\<exists>r. fit_loop L header items total' min_items byte_limit shown title_limit = Some r) \<and>
   (\<forall>n. utf8_length (digest_content L header items total' shown title_limit) = Some n \<and>
        \<not> int n \<le> byte_limit \<longrightarrow>
        (min_items < shown \<longrightarrow>
           fit_loop L header items total' min_items byte_limit shown title_limit
             = fit_loop L header items total' min_items byte_limit (shown - 1) title_limit \<and>
           nat (shown - 1 - min_items) + nat title_limit < nat (shown - min_items) + nat title_limit) \<and>
        (\<not> min_items < shown \<and> 20 < title_limit \<longrightarrow>
           fit_loop L header items total' min_items byte_limit shown title_limit
             = fit_loop L header items total' min_items byte_limit shown (title_limit - 4) \<and>
           nat (shown - min_items) + nat (title_limit - 4) < nat (shown - min_items) + nat title_limit))"
proof (intro conjI allI impI)
  show "\<exists>r. build_digest_markdown L snapshot keyword top_n byte_limit site_url = Some r"
    unfolding build_digest_markdown_fit_loop by (rule fit_loop_returns)
  show "\<exists>r. fit_loop L header items total' min_items byte_limit shown title_limit = Some r"
    by (rule fit_loop_returns)
next
  fix n
  assume a: "utf8_length (digest_content L header items total' shown title_limit) = Some n \<and>
        \<not> int n \<le> byte_limit"
  {
    assume "min_items < shown"
    with a show "fit_loop L header items total' min_items byte_limit shown title_limit
             = fit_loop L header items total' min_items byte_limit (shown - 1) title_limit"
      by (intro fit_loop_fewer [of _ _ _ _ _ _ n]) simp_all
    from \<open>min_items < shown\<close>
    show "nat (shown - 1 - min_items) + nat title_limit < nat (shown - min_items) + nat title_limit"
      by simp
  }
  {
    assume b: "\<not> min_items < shown \<and> 20 < title_limit"
    with a show "fit_loop L header items total' min_items byte_limit shown title_limit
             = fit_loop L header items total' min_items byte_limit shown (title_limit - 4)"
      by (intro fit_loop_shorter [of _ _ _ _ _ _ n]) simp_all
    from b
    show "nat (shown - min_items) + nat (title_limit - 4) < nat (shown - min_items) + nat title_limit"
      by simp
  }
qed

text \<open>
  C1 (amended). \<open>build_digest_markdown\<close> either raises \<open>UnicodeEncodeError\<close>, and then
  one of the candidate texts has no UTF-8 encoding, or returns a pair \<open>(content, shown)\<close>
  whose content either takes at most \<open>byte_limit\<close> bytes or is the candidate for
  \<open>shown\<close> at its floor (1 when an item is selected, 0 otherwise) and a title limit of
  at most 20, which the loop does not reduce further. When an item is selected, the
  returned \<open>shown\<close> is at least 1.
\<close>

theorem build_digest_markdown_result:
  "(let items = pick_ai_items snapshot;
        total' = int (length items);
        header = header_lines L snapshot keyword total' site_url
    in \<exists>r. build_digest_markdown L snapshot keyword top_n byte_limit site_url = Some r \<and>
         (case r of
            Inl e \<Rightarrow> e = UnicodeEncodeError \<and>
               (\<exists>s t. utf8_length (digest_content L header items total' s t) = None)
          | Inr (content, shown) \<Rightarrow>
               (\<exists>n. utf8_length content = Some n \<and>
                  (int n \<le> byte_limit \<or>
                   shown = (if items \<noteq> [] then 1 else 0) \<and>
                   (\<exists>t\<le>20. content = digest_content L header items total' shown t))) \<and>
               (items \<noteq> [] \<longrightarrow> 1 \<le> shown)))"
proof -
  define items where "items = pick_ai_items snapshot"
  define total' where "total' = int (length items)"
  define header where "header = header_lines L snapshot keyword total' site_url"
  define min_items :: int where "min_items = (if items \<noteq> [] then 1 else 0)"
  define shown0 where "shown0 = initial_shown top_n total'"
  have b: "build_digest_markdown L snapshot keyword top_n byte_limit site_url
             = fit_loop L header items total' min_items byte_limit shown0 46"
    by (simp add: build_digest_markdown_fit_loop items_def total'_def header_def min_items_def
        shown0_def)
  have m: "min_items \<le> shown0"
    using initial_shown_bounds [of total' top_n]
    by (simp add: min_items_def shown0_def total'_def)
  from fit_loop_returns obtain r where
    r: "fit_loop L header items total' min_items byte_limit shown0 46 = Some r" by blast
  have "case r of
      Inl e \<Rightarrow> e = UnicodeEncodeError \<and>
         (\<exists>s t. utf8_length (digest_content L header items total' s t) = None)
    | Inr (content, shown) \<Rightarrow>
         (\<exists>n. utf8_length content = Some n \<and>
            (int n \<le> byte_limit \<or>
             shown = min_items \<and>
             (\<exists>t\<le>20. content = digest_content L header items total' shown t))) \<and>
         (items \<noteq> [] \<longrightarrow> 1 \<le> shown)"
  proof (cases r)
    case (Inl e)
    with r fit_loop_Inl [of L header items total' min_items byte_limit shown0 46 e]
    show ?thesis by auto
  next
    case (Inr p)
    obtain content shown where p: "p = (content, shown)" by (cases p)
    from r Inr p fit_loop_Inr [of L header items total' min_items byte_limit shown0 46 content shown]
    obtain t n where *: "shown \<le> shown0" "min_items \<le> shown0 \<longrightarrow> min_items \<le> shown"
      "t \<le> 46" "content = digest_content L header items total' shown t"
      "utf8_length content = Some n" "int n \<le> byte_limit \<or> shown \<le> min_items \<and> t \<le> 20"
      by auto
    from * m have ge: "min_items \<le> shown" by simp
    then have one: "items \<noteq> [] \<longrightarrow> 1 \<le> shown"
      by (auto simp: min_items_def split: if_splits)
    from *(6) ge have "int n \<le> byte_limit \<or> shown = min_items \<and> t \<le> 20" by auto
    with *(4,5) have "\<exists>n. utf8_length content = Some n \<and>
            (int n \<le> byte_limit \<or>
             shown = min_items \<and>
             (\<exists>t\<le>20. content = digest_content L header items total' shown t))"
      by blast
    with one show ?thesis by (simp add: Inr p)
  qed
  with r b have "build_digest_markdown L snapshot keyword top_n byte_limit site_url = Some r \<and>
    (case r of
      Inl e \<Rightarrow> e = UnicodeEncodeError \<and>
         (\<exists>s t. utf8_length (digest_content L header items total' s t) = None)
    | Inr (content, shown) \<Rightarrow>
         (\<exists>n. utf8_length content = Some n \<and>
            (int n \<le> byte_limit \<or>
             shown = min_items \<and>
             (\<exists>t\<le>20. content = digest_content L header items total' shown t))) \<and>
         (items \<noteq> [] \<longrightarrow> 1 \<le> shown))"
    by simp
  then show ?thesis
    unfolding Let_def items_def [symmetric] total'_def [symmetric] header_def [symmetric]
      min_items_def [symmetric]
    by (rule exI)
qed

lemma set_py_join_Cons: "set x \<subseteq> set (py_join sep (x # xs))"
  by (cases xs) auto

lemma py_strip_prefix:
  assumes "xs \<noteq> []" and "\<not> py_isspace (hd xs)" and "y \<in> set ys" and "\<not> py_isspace y"
  shows "py_strip (xs @ c # ys) = xs @ c # rev (dropWhile py_isspace (rev ys))"
proof -
  from assms(1,2) have 1: "dropWhile py_isspace (xs @ c # ys) = xs @ c # ys"
    by (cases xs) auto
  from assms(3,4) have "dropWhile py_isspace (rev ys @ c # rev xs)
      = dropWhile py_isspace (rev ys) @ c # rev xs"
    by (intro dropWhile_append1 [of y]) simp_all
  then show ?thesis by (simp add: py_strip_def 1)
qed

lemma first_line_append: "LF \<notin> set xs \<Longrightarrow> first_line (xs @ LF # ys) = xs"
  by (induction xs) (auto simp: first_line_def)


lemma header_lines_keyword:
  "keyword \<noteq> [] \<Longrightarrow>
   \<exists>more. header_lines L snapshot keyword total' site_url =
     keyword # (ascii ''## AI '' @ [26032, 38395, 26085, 25253, 65288, 36817] @ ascii ''24''
                  @ [23567, 26102, 65289]) # more"
  by (simp add: header_lines_def Let_def)

lemma digest_content_keyword:
  assumes "keyword \<noteq> []" and "\<not> py_isspace (hd keyword)"
  shows "\<exists>rest. digest_content L (header_lines L snapshot keyword total' site_url) items n s t
           = keyword @ LF # rest"
proof -
  let ?title = "ascii ''## AI '' @ [26032, 38395, 26085, 25253, 65288, 36817] @ ascii ''24''
                  @ [23567, 26102, 65289]"
  from assms(1) obtain more where
    h: "header_lines L snapshot keyword total' site_url = keyword # ?title # more"
    using header_lines_keyword by blast
  obtain body where
    d: "digest_content L (header_lines L snapshot keyword total' site_url) items n s t
          = py_strip (py_join [LF] (keyword # ?title # more @ body))"
    by (simp add: digest_content_def Let_def h)
  have "35 \<in> set ?title" by (simp add: ascii_def)
  then have in_rest: "35 \<in> set (py_join [LF] (?title # more @ body))"
    using set_py_join_Cons [of ?title "[LF]" "more @ body"] by blast
  have "\<not> py_isspace 35" by (simp add: py_isspace_def)
  with in_rest assms
  have "py_strip (keyword @ LF # py_join [LF] (?title # more @ body))
          = keyword @ LF # rev (dropWhile py_isspace (rev (py_join [LF] (?title # more @ body))))"
    by (intro py_strip_prefix [of keyword 35]) simp_all
  with d show ?thesis by simp
qed

text \<open>
  C7 (amended). When the keyword is not empty, does not begin with a whitespace character
  and contains no newline, the first line of every content that
  \<open>build_digest_markdown\<close> returns is exactly the keyword.
\<close>

theorem keyword_first_line:
  assumes "keyword \<noteq> []" and "\<not> py_isspace (hd keyword)" and "LF \<notin> set keyword"
    and "build_digest_markdown L snapshot keyword top_n byte_limit site_url
           = Some (Inr (content, shown))"
  shows "first_line content = keyword"
proof -
  from assms(4) fit_loop_Inr
  obtain t where "content = digest_content L
      (header_lines L snapshot keyword (int (length (pick_ai_items snapshot))) site_url)
      (pick_ai_items snapshot) (int (length (pick_ai_items snapshot))) shown t"
    unfolding build_digest_markdown_fit_loop by blast
  with digest_content_keyword [OF assms(1,2)] obtain rest where "content = keyword @ LF # rest"
    by metis
  with assms(3) show ?thesis by (simp add: first_line_append)
qed

lemma build_no_items:
  assumes "pick_ai_items snapshot = []"
  shows "build_digest_markdown L snapshot keyword top_n byte_limit site_url =
     (if utf8_length (py_strip (py_join [LF] (header_lines L snapshot keyword 0 site_url))) = None
      then Some (Inl UnicodeEncodeError)
      else Some (Inr (py_strip (py_join [LF] (header_lines L snapshot keyword 0 site_url)), 0)))"
proof -
  let ?h = "header_lines L snapshot keyword 0 site_url"
  let ?c = "py_strip (py_join [LF] ?h)"
  have b: "build_digest_markdown L snapshot keyword top_n byte_limit site_url
             = fit_loop L ?h [] 0 0 byte_limit 0 46"
    by (simp add: build_digest_markdown_fit_loop assms initial_shown_def)
  obtain r where r: "fit_loop L ?h [] 0 0 byte_limit 0 46 = Some r"
    using fit_loop_returns by blast
  show ?thesis
  proof (cases r)
    case (Inl e)
    with r fit_loop_Inl [of L ?h "[]" 0 0 byte_limit 0 46 e]
    obtain s t where "e = UnicodeEncodeError" "s \<le> 0" "0 \<le> s"
      "utf8_length (digest_content L ?h [] 0 s t) = None" by auto
    then have "e = UnicodeEncodeError" "utf8_length ?c = None"
      by (simp_all add: digest_content_no_items)
    with r Inl b show ?thesis by simp
  next
    case (Inr p)
    obtain content shown where p: "p = (content, shown)" by (cases p)
    from r Inr p fit_loop_Inr [of L ?h "[]" 0 0 byte_limit 0 46 content shown]
    obtain t n where "shown \<le> 0" "0 \<le> shown" "content = digest_content L ?h [] 0 shown t"
      "utf8_length content = Some n" by auto
    then have "shown = 0" "content = ?c" "utf8_length ?c \<noteq> None"
      by (simp_all add: digest_content_no_items)
    with r Inr p b show ?thesis by simp
  qed
qed

text \<open>
  C8 (amended). When no item is selected, \<open>build_digest_markdown\<close> raises
  \<open>UnicodeEncodeError\<close> if the header has no UTF-8 encoding, and otherwise returns
  \<open>shown = 0\<close> with the stripped header lines as content, whatever \<open>top_n\<close> and
  \<open>byte_limit\<close> are: the count line of the header renders 0, there are no item lines,
  and no remark line is added.
\<close>

theorem no_items_header_only:
  "pick_ai_items snapshot = [] \<Longrightarrow>
   (let header = header_lines L snapshot keyword 0 site_url;
        c = py_strip (py_join [LF] header)
    in build_digest_markdown L snapshot keyword top_n byte_limit site_url =
         (if utf8_length c = None then Some (Inl UnicodeEncodeError) else Some (Inr (c, 0))) \<and>
       ascii ''> AI '' @ [30456, 20851, 26465, 25968, 65306] @ ascii ''0'' \<in> set header \<and>
       (\<forall>s t. item_lines L (pick_ai_items snapshot) s t = []) \<and>
       (\<forall>t. digest_content L header (pick_ai_items snapshot) 0 0 t = c))"
  unfolding Let_def
proof (intro conjI allI)
  assume a: "pick_ai_items snapshot = []"
  then show "build_digest_markdown L snapshot keyword top_n byte_limit site_url =
     (if utf8_length (py_strip (py_join [LF] (header_lines L snapshot keyword 0 site_url))) = None
      then Some (Inl UnicodeEncodeError)
      else Some (Inr (py_strip (py_join [LF] (header_lines L snapshot keyword 0 site_url)), 0)))"
    by (rule build_no_items)
  show "ascii ''> AI '' @ [30456, 20851, 26465, 25968, 65306] @ ascii ''0''
          \<in> set (header_lines L snapshot keyword 0 site_url)"
    by (simp add: header_lines_def Let_def str_int_def decimal.simps ascii_def)
  show "item_lines L (pick_ai_items snapshot) s t = []" for s t
    by (simp add: a item_lines_Nil)
  show "digest_content L (header_lines L snapshot keyword 0 site_url) (pick_ai_items snapshot) 0 0 t
          = py_strip (py_join [LF] (header_lines L snapshot keyword 0 site_url))" for t
    by (simp add: a digest_content_no_items)
qed

text \<open>
  C4. The loop of \<open>build_digest_markdown\<close> starts from \<open>min(max(top_n, 0), total)\<close>, and
  from \<open>min(total, 3)\<close> when that is zero. When the first candidate fits into
  \<open>byte_limit\<close>, it is returned with this shown-count; for \<open>top_n = 0\<close> and a total
  that is not zero this count is \<open>min(total, 3)\<close>.
\<close>

theorem initial_shown_policy:
  "(let items = pick_ai_items snapshot;
        total' = int (length items);
        header = header_lines L snapshot keyword total' site_url;
        v = min (max top_n 0) total';
        shown = (if v = 0 then min total' 3 else v)
    in initial_shown top_n total' = shown \<and>
       build_digest_markdown L snapshot keyword top_n byte_limit site_url =
         fit_loop L header items total' (if total' \<noteq> 0 then 1 else 0) byte_limit shown 46 \<and>
       (\<forall>n. utf8_length (digest_content L header items total' shown 46) = Some n \<and>
            int n \<le> byte_limit \<longrightarrow>
            build_digest_markdown L snapshot keyword top_n byte_limit site_url =
              Some (Inr (digest_content L header items total' shown 46, shown))) \<and>
       (top_n = 0 \<and> total' \<noteq> 0 \<longrightarrow> shown = min total' 3))"
proof -
  define items where "items = pick_ai_items snapshot"
  define total' where "total' = int (length items)"
  define header where "header = header_lines L snapshot keyword total' site_url"
  define v where "v = min (max top_n 0) total'"
  define shown where "shown = (if v = 0 then min total' 3 else v)"
  have nn: "0 \<le> total'" by (simp add: total'_def)
  then have 1: "initial_shown top_n total' = shown"
    by (auto simp: initial_shown_def shown_def v_def Let_def)
  have ne: "total' \<noteq> 0 \<longleftrightarrow> items \<noteq> []" by (simp add: total'_def)
  have 2: "build_digest_markdown L snapshot keyword top_n byte_limit site_url =
         fit_loop L header items total' (if total' \<noteq> 0 then 1 else 0) byte_limit shown 46"
    unfolding ne
    by (simp add: build_digest_markdown_fit_loop items_def [symmetric] total'_def [symmetric]
        header_def [symmetric] 1)
  have 3: "build_digest_markdown L snapshot keyword top_n byte_limit site_url =
              Some (Inr (digest_content L header items total' shown 46, shown))"
    if "utf8_length (digest_content L header items total' shown 46) = Some n \<and> int n \<le> byte_limit"
    for n
    unfolding 2 using that by (intro fit_loop_fits [of _ _ _ _ _ _ n]) simp_all
  have 4: "top_n = 0 \<and> total' \<noteq> 0 \<longrightarrow> shown = min total' 3"
    using nn by (auto simp: shown_def v_def)
  from 1 2 3 4 show ?thesis
    unfolding Let_def items_def [symmetric] total'_def [symmetric] header_def [symmetric]
      v_def [symmetric] shown_def [symmetric]
    by blast
qed

subsection \<open>The builder on the sample inputs\<close>

lemmas eval_defs = ascii_def py_strip_def py_isspace_def py_replace_def py_slice_to_def
  str_int_def dict_get_def py_or_def py_str_def parse_iso_to_bj_def shorten_def
  header_lines_def item_block_def item_lines_def digest_content_def
  pick_ai_items_def dict_entries_def List.map_filter_simps
  LF_def ELLIPSIS_def Let_def decimal.simps

lemma pick_two_items:
  "pick_ai_items two_items =
     [[(ascii ''title'', JStr (ascii ''a''))], [(ascii ''title'', JStr (ascii ''b''))]]"
  by (simp add: two_items_def eval_defs)

lemma content_two_items_full:
  "digest_content profile_lib (header_lines profile_lib two_items (ascii ''K'') 2 None)
     (pick_ai_items two_items) 2 2 46 = two_items_full"
  by (simp add: two_items_def two_items_full_def eval_defs)

lemma content_two_items_one:
  "1 \<le> t \<Longrightarrow>
   digest_content profile_lib (header_lines profile_lib two_items (ascii ''K'') 2 None)
     (pick_ai_items two_items) 2 1 t = two_items_one"
  by (simp add: two_items_def two_items_one_def eval_defs)

lemma utf8_length_two_items_full: "utf8_length two_items_full = Some 141"
  by (simp add: two_items_full_def ascii_def utf8_width_def)

lemma utf8_length_two_items_one: "utf8_length two_items_one = Some 167"
  by (simp add: two_items_one_def ascii_def utf8_width_def)

lemma build_two_items:
  "build_digest_markdown profile_lib two_items (ascii ''K'') top_n byte_limit None =
     fit_loop profile_lib (header_lines profile_lib two_items (ascii ''K'') 2 None)
       (pick_ai_items two_items) 2 1 byte_limit (initial_shown top_n 2) 46"
  by (simp add: build_digest_markdown_fit_loop pick_two_items)

lemma fit_two_items_full:
  "141 \<le> byte_limit \<Longrightarrow>
   fit_loop profile_lib (header_lines profile_lib two_items (ascii ''K'') 2 None)
       (pick_ai_items two_items) 2 1 byte_limit 2 46 = Some (Inr (two_items_full, 2))"
  by (subst fit_loop_fits [where n = 141])
     (simp_all add: content_two_items_full utf8_length_two_items_full)

lemma fit_two_items_best_effort:
  "fit_loop profile_lib (header_lines profile_lib two_items (ascii ''K'') 2 None)
       (pick_ai_items two_items) 2 1 10 2 46 = Some (Inr (two_items_one, 1))"
  by (simp add: fit_loop_fewer [where n = 141] fit_loop_shorter [where n = 167]
      fit_loop_give_up [where n = 167] content_two_items_full content_two_items_one
      utf8_length_two_items_full utf8_length_two_items_one)

lemma pick_four_items:
  "pick_ai_items four_items =
     [[(ascii ''title'', JStr (ascii ''a''))], [(ascii ''title'', JStr (ascii ''b''))],
      [(ascii ''title'', JStr (ascii ''c''))], [(ascii ''title'', JStr (ascii ''d''))]]"
  by (simp add: four_items_def eval_defs)

lemma content_four_items_three:
  "digest_content profile_lib (header_lines profile_lib four_items (ascii ''K'') 4 None)
     (pick_ai_items four_items) 4 3 46 = four_items_three"
  by (simp add: four_items_def four_items_three_def eval_defs)

lemma utf8_length_four_items_three: "utf8_length four_items_three = Some 207"
  by (simp add: four_items_three_def ascii_def utf8_width_def)

lemma pick_Nil: "pick_ai_items [] = []"
  by (simp add: eval_defs)

lemma header_K: "py_strip (py_join [LF] (header_lines profile_lib [] (ascii ''K'') 0 None)) = header_only"
  by (simp add: header_only_def eval_defs)

lemma utf8_length_header_only: "utf8_length header_only = Some 100"
  by (simp add: header_only_def ascii_def utf8_width_def)

lemma header_AI:
  "py_strip (py_join [LF] (header_lines profile_lib [] (ascii '' AI'') 0 None)) = header_only_AI"
  by (simp add: header_only_AI_def eval_defs)

lemma utf8_length_header_only_AI: "utf8_length header_only_AI = Some 101"
  by (simp add: header_only_AI_def ascii_def utf8_width_def)

lemma header_surrogate:
  "utf8_length (py_strip (py_join [LF] (header_lines profile_lib [] [55296] 0 None))) = None"
  by (simp add: eval_defs utf8_width_def)

lemma pick_lone_surrogate:
  "pick_ai_items lone_surrogate = [[(ascii ''title'', JStr [55296])]]"
  by (simp add: lone_surrogate_def eval_defs)

lemma content_lone_surrogate:
  "utf8_length (digest_content profile_lib (header_lines profile_lib lone_surrogate (ascii ''K'') 1 None)
     (pick_ai_items lone_surrogate) 1 1 46) = None"
  by (simp add: lone_surrogate_def eval_defs utf8_width_def)

subsection \<open>The claims on the sample inputs\<close>

lemma build_two_items_full:
  "build_digest_markdown profile_lib two_items (ascii ''K'') 2 3800 None
     = Some (Inr (two_items_full, 2))"
  by (simp add: build_two_items initial_shown_def fit_two_items_full)

lemma build_two_items_best_effort:
  "build_digest_markdown profile_lib two_items (ascii ''K'') 2 10 None
     = Some (Inr (two_items_one, 1))"
  by (simp add: build_two_items initial_shown_def fit_two_items_best_effort)

theorem build_digest_markdown_result_witness:
  "build_digest_markdown profile_lib two_items (ascii ''K'') 2 3800 None
     = Some (Inr (two_items_full, 2)) \<and>
   utf8_length two_items_full = Some 141 \<and> (141::int) \<le> 3800 \<and>
   build_digest_markdown profile_lib two_items (ascii ''K'') 2 10 None
     = Some (Inr (two_items_one, 1)) \<and>
   utf8_length two_items_one = Some 167 \<and> \<not> (167::int) \<le> 10 \<and>
   two_items_one = digest_content profile_lib
     (header_lines profile_lib two_items (ascii ''K'') 2 None) (pick_ai_items two_items) 2 1 18 \<and>
   pick_ai_items two_items \<noteq> []"
proof -
  have ne: "pick_ai_items two_items \<noteq> []"
    by (simp add: pick_two_items)
  have c: "two_items_one = digest_content profile_lib
     (header_lines profile_lib two_items (ascii ''K'') 2 None) (pick_ai_items two_items) 2 1 18"
    by (simp add: content_two_items_one)
  from build_digest_markdown_result [of two_items profile_lib "ascii ''K''" None 2 3800]
    build_digest_markdown_result [of two_items profile_lib "ascii ''K''" None 2 10] ne c
  show ?thesis
    by (simp add: build_two_items_full build_two_items_best_effort utf8_length_two_items_full
        utf8_length_two_items_one)
qed

text \<open>
  The claim as written promises a pair for every snapshot. A title that is a lone
  surrogate makes the builder raise instead.
\<close>

theorem build_digest_markdown_raises_counterexample:
  "build_digest_markdown profile_lib lone_surrogate (ascii ''K'') 12 3800 None
     = Some (Inl UnicodeEncodeError)"
proof -
  have "build_digest_markdown profile_lib lone_surrogate (ascii ''K'') 12 3800 None
      = fit_loop profile_lib (header_lines profile_lib lone_surrogate (ascii ''K'') 1 None)
          (pick_ai_items lone_surrogate) 1 1 3800 1 46"
    by (simp add: build_digest_markdown_fit_loop pick_lone_surrogate initial_shown_def)
  also have "\<dots> = Some (Inl UnicodeEncodeError)"
    by (rule fit_loop_raise) (rule content_lone_surrogate)
  finally show ?thesis .
qed

theorem build_digest_markdown_terminates_witness:
  "(\<exists>r. build_digest_markdown profile_lib two_items (ascii ''K'') 2 10 None = Some r) \<and>
   utf8_length (digest_content profile_lib (header_lines profile_lib two_items (ascii ''K'') 2 None)
     (pick_ai_items two_items) 2 2 46) = Some 141 \<and> \<not> (141::int) \<le> 10 \<and> (1::int) < 2 \<and>
   fit_loop profile_lib (header_lines profile_lib two_items (ascii ''K'') 2 None)
       (pick_ai_items two_items) 2 1 10 2 46
     = fit_loop profile_lib (header_lines profile_lib two_items (ascii ''K'') 2 None)
       (pick_ai_items two_items) 2 1 10 1 46 \<and>
   utf8_length (digest_content profile_lib (header_lines profile_lib two_items (ascii ''K'') 2 None)
     (pick_ai_items two_items) 2 1 46) = Some 167 \<and> \<not> (167::int) \<le> 10 \<and> \<not> (1::int) < 1 \<and>
   (20::int) < 46 \<and>
   fit_loop profile_lib (header_lines profile_lib two_items (ascii ''K'') 2 None)
       (pick_ai_items two_items) 2 1 10 1 46
     = fit_loop profile_lib (header_lines profile_lib two_items (ascii ''K'') 2 None)
       (pick_ai_items two_items) 2 1 10 1 42"
  using
    build_digest_markdown_terminates [of profile_lib two_items "ascii ''K''" 2 10 None
      "header_lines profile_lib two_items (ascii ''K'') 2 None" "pick_ai_items two_items" 2 1 2 46]
    build_digest_markdown_terminates [of profile_lib two_items "ascii ''K''" 2 10 None
      "header_lines profile_lib two_items (ascii ''K'') 2 None" "pick_ai_items two_items" 2 1 1 46]
  by (simp add: content_two_items_full content_two_items_one utf8_length_two_items_full
      utf8_length_two_items_one)

lemma build_four_items_three:
  "build_digest_markdown profile_lib four_items (ascii ''K'') 0 3800 None
     = Some (Inr (four_items_three, 3))"
proof -
  have "build_digest_markdown profile_lib four_items (ascii ''K'') 0 3800 None
      = fit_loop profile_lib (header_lines profile_lib four_items (ascii ''K'') 4 None)
          (pick_ai_items four_items) 4 1 3800 3 46"
    by (simp add: build_digest_markdown_fit_loop pick_four_items initial_shown_def)
  also have "\<dots> = Some (Inr (four_items_three, 3))"
    by (subst fit_loop_fits [where n = 207])
       (simp_all add: content_four_items_three utf8_length_four_items_three)
  finally show ?thesis .
qed

theorem initial_shown_policy_witness:
  "initial_shown 0 4 = 3 \<and>
   utf8_length (digest_content profile_lib (header_lines profile_lib four_items (ascii ''K'') 4 None)
     (pick_ai_items four_items) 4 3 46) = Some 207 \<and> (207::int) \<le> 3800 \<and>
   build_digest_markdown profile_lib four_items (ascii ''K'') 0 3800 None
     = Some (Inr (four_items_three, 3)) \<and>
   int (length (pick_ai_items four_items)) = 4 \<and> min (4::int) 3 = 3"
proof -
  have len: "int (length (pick_ai_items four_items)) = 4"
    by (simp add: pick_four_items)
  have u: "utf8_length (digest_content profile_lib
      (header_lines profile_lib four_items (ascii ''K'') 4 None)
      (pick_ai_items four_items) 4 3 46) = Some 207"
    by (simp add: content_four_items_three utf8_length_four_items_three)
  have i: "initial_shown 0 4 = 3"
    by (simp add: initial_shown_def)
  from initial_shown_policy [of four_items profile_lib "ascii ''K''" None 0 3800] len u i
  show ?thesis
    by (simp add: build_four_items_three)
qed

theorem keyword_first_line_witness:
  "ascii ''K'' \<noteq> [] \<and> \<not> py_isspace (hd (ascii ''K'')) \<and> LF \<notin> set (ascii ''K'') \<and>
   build_digest_markdown profile_lib two_items (ascii ''K'') 2 3800 None
     = Some (Inr (two_items_full, 2)) \<and>
   first_line two_items_full = ascii ''K''"
proof -
  have 1: "ascii ''K'' \<noteq> []" and 2: "\<not> py_isspace (hd (ascii ''K''))"
    and 3: "LF \<notin> set (ascii ''K'')"
    by (simp_all add: ascii_def py_isspace_def LF_def)
  from keyword_first_line [OF 1 2 3 build_two_items_full] 1 2 3 build_two_items_full
  show ?thesis by simp
qed

lemma build_header_only_AI:
  "build_digest_markdown profile_lib [] (ascii '' AI'') 12 3800 None
     = Some (Inr (header_only_AI, 0))"
  by (simp add: build_no_items [OF pick_Nil] header_AI utf8_length_header_only_AI)

text \<open>
  The claim as written fails for a keyword that begins with a space: the content is
  stripped, and its first line is the keyword without the space.
\<close>

theorem keyword_first_line_counterexample:
  "ascii '' AI'' \<noteq> [] \<and>
   build_digest_markdown profile_lib [] (ascii '' AI'') 12 3800 None
     = Some (Inr (header_only_AI, 0)) \<and>
   first_line header_only_AI = ascii ''AI'' \<and>
   first_line header_only_AI \<noteq> ascii '' AI''"
  by (simp add: build_header_only_AI) (simp add: header_only_AI_def first_line_def ascii_def LF_def)

theorem no_items_header_only_witness:
  "pick_ai_items [] = [] \<and>
   build_digest_markdown profile_lib [] (ascii ''K'') 12 3800 None = Some (Inr (header_only, 0)) \<and>
   build_digest_markdown profile_lib [] (ascii ''K'') 12 0 None = Some (Inr (header_only, 0))"
  using no_items_header_only [OF pick_Nil, of profile_lib "ascii ''K''" None 12 3800]
    no_items_header_only [OF pick_Nil, of profile_lib "ascii ''K''" None 12 0]
  by (simp add: Let_def pick_Nil header_K utf8_length_header_only)

text \<open>
  The claim as written promises a content for every snapshot without items. A keyword
  that is a lone surrogate makes the builder raise instead.
\<close>

theorem no_items_raises_counterexample:
  "pick_ai_items [] = [] \<and>
   build_digest_markdown profile_lib [] [55296] 12 3800 None = Some (Inl UnicodeEncodeError)"
  by (simp add: pick_Nil build_no_items [OF pick_Nil] header_surrogate)

subsection \<open>\<open>send_wecom_markdown\<close>\<close>

lemma floor_half: "\<lfloor>1 / 2 :: rat\<rfloor> = 0"
  by (rule floor_unique) simp_all

lemma py_int_not_RuntimeError: "py_int L v \<noteq> Inl (RuntimeError x)"
  by (auto simp: py_int_def split: json.splits pyfloat.splits option.splits)

text \<open>
  C9 (amended). \<open>send_wecom_markdown\<close> sends exactly one request, whose JSON body is
  \<open>{"msgtype": "markdown", "markdown": {"content": content}}\<close>. An exception of the
  request is passed on, and a status from 400 to 599 raises \<open>HTTPError\<close>. After any other
  status, a body that is not JSON raises \<open>JSONDecodeError\<close>; a JSON body \<open>data\<close> that is
  not an object raises \<open>AttributeError\<close>; for an object, an \<open>errcode\<close> (\<open>-1\<close> when it has
  none) that \<open>int\<close> rejects raises the exception of \<open>int\<close>. The call raises
  \<open>RuntimeError\<close> with \<open>data\<close> exactly when \<open>data\<close> is an object and \<open>int\<close> of its
  \<open>errcode\<close> is defined and not 0, and returns \<open>data\<close> exactly when that integer is 0.
  For an integer \<open>errcode\<close> this is the test of the claim.
\<close>

theorem send_wecom_markdown_cases:
  "(let req = \<lparr>req_url = webhook_url,
                 req_json = JDict [(ascii ''msgtype'', JStr (ascii ''markdown'')),
                                   (ascii ''markdown'', JDict [(ascii ''content'', JStr content)])],
                 req_timeout = timeout\<rparr>;
        out = send_wecom_markdown L post webhook_url content timeout
    in fst out = [req] \<and>
       (\<forall>e. post req = Inl e \<longrightarrow> snd out = Inl e) \<and>
       (\<forall>resp. post req = Inr resp \<and> 400 \<le> status_code resp \<and> status_code resp < 600 \<longrightarrow>
          snd out = Inl (HTTPError (status_code resp))) \<and>
       (\<forall>resp data. post req = Inr resp \<and> \<not> (400 \<le> status_code resp \<and> status_code resp < 600) \<and>
          json_body resp = Some data \<longrightarrow>
          (snd out = Inl (RuntimeError data) \<longleftrightarrow>
             (\<exists>d code. data = JDict d \<and>
                py_int L (dict_get_default d (ascii ''errcode'') (JInt (- 1))) = Inr code \<and>
                code \<noteq> 0)) \<and>
          (snd out = Inr data \<longleftrightarrow>
             (\<exists>d. data = JDict d \<and>
                py_int L (dict_get_default d (ascii ''errcode'') (JInt (- 1))) = Inr 0)) \<and>
          (\<forall>d n. data = JDict d \<and> map_of d (ascii ''errcode'') = Some (JInt n) \<longrightarrow>
             snd out = (if n \<noteq> 0 then Inl (RuntimeError data) else Inr data)) \<and>
          ((\<forall>d. data \<noteq> JDict d) \<longrightarrow> snd out = Inl AttributeError) \<and>
          (\<forall>d e. data = JDict d \<and>
             py_int L (dict_get_default d (ascii ''errcode'') (JInt (- 1))) = Inl e \<longrightarrow>
             snd out = Inl e)) \<and>
       (\<forall>resp. post req = Inr resp \<and> \<not> (400 \<le> status_code resp \<and> status_code resp < 600) \<and>
          json_body resp = None \<longrightarrow>
          snd out = Inl JSONDecodeError))"
proof -
  let ?req = "\<lparr>req_url = webhook_url,
                 req_json = JDict [(ascii ''msgtype'', JStr (ascii ''markdown'')),
                                   (ascii ''markdown'', JDict [(ascii ''content'', JStr content)])],
                 req_timeout = timeout\<rparr>"
  let ?out = "send_wecom_markdown L post webhook_url content timeout"
  have 1: "fst ?out = [?req]"
    by (simp add: send_wecom_markdown_def Let_def)
  have 2: "snd ?out = Inl e" if "post ?req = Inl e" for e
    using that by (simp add: send_wecom_markdown_def Let_def)
  have 3: "snd ?out = Inl (HTTPError (status_code resp))"
    if "post ?req = Inr resp \<and> 400 \<le> status_code resp \<and> status_code resp < 600" for resp
    using that by (simp add: send_wecom_markdown_def Let_def raise_for_status_def)
  have 4: "(snd ?out = Inl (RuntimeError data) \<longleftrightarrow>
             (\<exists>d code. data = JDict d \<and>
                py_int L (dict_get_default d (ascii ''errcode'') (JInt (- 1))) = Inr code \<and>
                code \<noteq> 0)) \<and>
          (snd ?out = Inr data \<longleftrightarrow>
             (\<exists>d. data = JDict d \<and>
                py_int L (dict_get_default d (ascii ''errcode'') (JInt (- 1))) = Inr 0)) \<and>
          (\<forall>d n. data = JDict d \<and> map_of d (ascii ''errcode'') = Some (JInt n) \<longrightarrow>
             snd ?out = (if n \<noteq> 0 then Inl (RuntimeError data) else Inr data)) \<and>
          ((\<forall>d. data \<noteq> JDict d) \<longrightarrow> snd ?out = Inl AttributeError) \<and>
          (\<forall>d e. data = JDict d \<and>
             py_int L (dict_get_default d (ascii ''errcode'') (JInt (- 1))) = Inl e \<longrightarrow>
             snd ?out = Inl e)"
    if a: "post ?req = Inr resp \<and> \<not> (400 \<le> status_code resp \<and> status_code resp < 600) \<and>
          json_body resp = Some data" for resp data
  proof (cases "\<exists>d. data = JDict d")
    case False
    with a have "snd ?out = Inl AttributeError"
      by (cases data) (auto simp: send_wecom_markdown_def Let_def raise_for_status_def)
    with False show ?thesis by auto
  next
    case True
    then obtain d where d: "data = JDict d" by blast
    show ?thesis
    proof (cases "py_int L (dict_get_default d (ascii ''errcode'') (JInt (- 1)))")
      case (Inl e)
      with a d have "snd ?out = Inl e"
        by (auto simp: send_wecom_markdown_def Let_def raise_for_status_def)
      moreover from Inl have "e \<noteq> RuntimeError data"
        using py_int_not_RuntimeError by metis
      moreover from Inl have "map_of d (ascii ''errcode'') \<noteq> Some (JInt n)" for n
        by (auto simp: dict_get_default_def py_int_def)
      ultimately show ?thesis using Inl d by auto
    next
      case (Inr code)
      with a d have o: "snd ?out = (if code \<noteq> 0 then Inl (RuntimeError data) else Inr data)"
        by (auto simp: send_wecom_markdown_def Let_def raise_for_status_def)
      from Inr have "n = code" if "map_of d (ascii ''errcode'') = Some (JInt n)" for n
        using that by (simp add: dict_get_default_def py_int_def)
      with o Inr d show ?thesis by auto
    qed
  qed
  have 5: "snd ?out = Inl JSONDecodeError"
    if "post ?req = Inr resp \<and> \<not> (400 \<le> status_code resp \<and> status_code resp < 600) \<and>
          json_body resp = None" for resp
    using that by (auto simp: send_wecom_markdown_def Let_def raise_for_status_def)
  from 1 2 3 4 5 show ?thesis unfolding Let_def by blast
qed

theorem send_wecom_markdown_cases_witness:
  "send_wecom_markdown profile_lib server_ok (ascii ''https://example.com/hook'') (ascii ''hi'') 15
     = ([\<lparr>req_url = ascii ''https://example.com/hook'',
           req_json = JDict [(ascii ''msgtype'', JStr (ascii ''markdown'')),
                             (ascii ''markdown'', JDict [(ascii ''content'', JStr (ascii ''hi''))])],
           req_timeout = 15\<rparr>],
        Inr (JDict [(ascii ''errcode'', JInt 0), (ascii ''errmsg'', JStr (ascii ''ok''))])) \<and>
   snd (send_wecom_markdown profile_lib server_rejects (ascii ''https://example.com/hook'')
          (ascii ''hi'') 15)
     = Inl (RuntimeError (JDict [(ascii ''errcode'', JInt 93000),
                                  (ascii ''errmsg'', JStr (ascii ''invalid webhook url''))])) \<and>
   snd (send_wecom_markdown profile_lib server_down (ascii ''https://example.com/hook'')
          (ascii ''hi'') 15)
     = Inl (HTTPError 503) \<and>
   snd (send_wecom_markdown profile_lib server_page (ascii ''https://example.com/hook'')
          (ascii ''hi'') 15)
     = Inl JSONDecodeError \<and>
   snd (send_wecom_markdown profile_lib server_list (ascii ''https://example.com/hook'')
          (ascii ''hi'') 15)
     = Inl AttributeError \<and>
   snd (send_wecom_markdown profile_lib server_null (ascii ''https://example.com/hook'')
          (ascii ''hi'') 15)
     = Inl TypeError"
  using send_wecom_markdown_cases [of "ascii ''https://example.com/hook''" "ascii ''hi''" 15
      profile_lib server_ok]
    send_wecom_markdown_cases [of "ascii ''https://example.com/hook''" "ascii ''hi''" 15
      profile_lib server_rejects]
    send_wecom_markdown_cases [of "ascii ''https://example.com/hook''" "ascii ''hi''" 15
      profile_lib server_down]
    send_wecom_markdown_cases [of "ascii ''https://example.com/hook''" "ascii ''hi''" 15
      profile_lib server_page]
    send_wecom_markdown_cases [of "ascii ''https://example.com/hook''" "ascii ''hi''" 15
      profile_lib server_list]
    send_wecom_markdown_cases [of "ascii ''https://example.com/hook''" "ascii ''hi''" 15
      profile_lib server_null]
  by (simp add: Let_def send_wecom_markdown_def server_ok_def server_rejects_def server_down_def
      server_page_def server_list_def server_null_def
      raise_for_status_def py_int_def dict_get_default_def ascii_def)

text \<open>
  The claim as written fails for an error code that is a number, is not 0, and is
  truncated to 0 by \<open>int\<close>: the response is returned as a success.
\<close>

theorem send_wecom_markdown_fraction_counterexample:
  "Finite (1 / 2) \<noteq> Finite 0 \<and>
   snd (send_wecom_markdown profile_lib server_half (ascii ''https://example.com/hook'')
          (ascii ''hi'') 15)
     = Inr (JDict [(ascii ''errcode'', JFloat (Finite (1 / 2)))])"
  by (simp add: Let_def send_wecom_markdown_def server_half_def
      raise_for_status_def py_int_def dict_get_default_def ascii_def floor_half)

subsection \<open>\<open>parse_iso_to_bj\<close>\<close>



























end
